theory Spec2Isabelle
  imports Complex_Main
begin

section \<open>Exceptions\<close>

text \<open>
  The pipeline's handlers are all \<^verbatim>\<open>except Exception as e\<close>, so the model's
  exceptions are the instances of Python's \<^verbatim>\<open>Exception\<close>. \<open>RuntimeError\<close> is raised by
  the build phase itself, \<open>AttributeError\<close> by an attribute access on \<^verbatim>\<open>None\<close>,
  \<open>ConfigurationError\<close> by the batch scheduler, and \<open>StageFault\<close> stands for whatever
  a pluggable stage, page initialiser, assembler or enrichment model raises.
\<close>

datatype exn =
    RuntimeError string
  | AttributeError string
  | ConfigurationError string
  | StageFault string

section \<open>The batch scheduler\<close>

text \<open>
  Contiguous chunks of \<open>b\<close> elements, the last one holding what is left.
\<close>

function chunks :: "nat \<Rightarrow> 'a list \<Rightarrow> 'a list list" where
  "chunks b xs = (if b = 0 \<or> xs = [] then [] else take b xs # chunks b (drop b xs))"
  by pat_completeness auto
termination
  by (relation "measure (\<lambda>(b, xs). length xs)") auto

declare chunks.simps [simp del]

text \<open>
  Modelled from the spec: \<^verbatim>\<open>chunkify\<close> is imported from \<^verbatim>\<open>docling/utils/utils.py\<close>, which is
  not among the sources. The spec (4.4) gives it as a pure function that, for an ordered
  sequence and a batch size of at least 1, yields contiguous batches preserving order,
  the final batch possibly shorter, with no reordering and no deduplication; a batch
  size of 0 or less is a configuration error. The argument order is the one of the
  call sites, \<^verbatim>\<open>chunkify(sequence, size)\<close>.
\<close>

definition chunkify :: "'a list \<Rightarrow> int \<Rightarrow> exn + 'a list list" where
  "chunkify xs chunk_size =
     (if chunk_size < 1 then Inl (ConfigurationError ''batch size must be at least 1'')
      else Inr (chunks (nat chunk_size) xs))"

section \<open>Data model\<close>

text \<open>
  \<^verbatim>\<open>docling/datamodel/base_models.py\<close>: the status and component enums and the error
  item, as they are declared. A name of the source that Isabelle reserves carries a
  prime here: \<open>module_name'\<close>, and below \<open>file'\<close> and \<open>output'\<close>.
\<close>

datatype ConversionStatus = PENDING | STARTED | FAILURE | SUCCESS | PARTIAL_SUCCESS

datatype DoclingComponentType = DOCUMENT_BACKEND | MODEL | DOC_ASSEMBLER

record ErrorItem =
  component_type :: DoclingComponentType
  module_name' :: string
  error_message :: string

text \<open>
  A page backend, by what the pipeline reads of it: the name of its class and the
  answer of \<^verbatim>\<open>is_valid()\<close>.
\<close>

record PdfPageBackend =
  page_backend_class :: string
  is_valid :: bool

text \<open>
  \<^verbatim>\<open>Page\<close>: the page number and the private \<^verbatim>\<open>_backend\<close> attribute, \<^verbatim>\<open>None\<close> by default.
  The size, cells, predictions, assembled unit and image cache are never read by the
  pipeline code and are left out.
\<close>

record Page =
  page_no :: int
  page_backend :: "PdfPageBackend option"

definition new_Page :: "int \<Rightarrow> Page" where
  "new_Page i = \<lparr>page_no = i, page_backend = None\<rparr>"

text \<open>
  A document backend, by what the pipeline does with it: the name of its class, whether
  it is an instance of \<^verbatim>\<open>PdfDocumentBackend\<close>, and a counter of the calls of
  \<^verbatim>\<open>unload()\<close> it has received (the call counter of a mock backend). The class
  \<^verbatim>\<open>PdfDocumentBackend\<close> is not among the sources; its \<^verbatim>\<open>unload()\<close> is taken to return, and
  a backend object is taken to be truthy, as an object is that defines no \<^verbatim>\<open>__bool__\<close>.
\<close>

record DocumentBackend =
  backend_class :: string
  is_pdf_backend :: bool
  unload_calls :: nat

definition DocumentBackend_unload :: "DocumentBackend \<Rightarrow> DocumentBackend" where
  "DocumentBackend_unload b = b\<lparr>unload_calls := Suc (unload_calls b)\<rparr>"

text \<open>
  \<^verbatim>\<open>InputDocument\<close> (its class is in \<^verbatim>\<open>docling/datamodel/document.py\<close>), by the
  attributes the pipeline reads: \<^verbatim>\<open>file\<close>, \<^verbatim>\<open>valid\<close>, \<^verbatim>\<open>page_count\<close> and \<^verbatim>\<open>_backend\<close>.
\<close>

record InputDocument =
  file' :: string
  valid :: bool
  page_count :: int
  doc_backend :: "DocumentBackend option"

text \<open>
  \<^verbatim>\<open>ConversionResult\<close>: the page list, the error list, the status and the output
  document, which the enrichment phase reads as the list of its items in iteration
  order. The \<^verbatim>\<open>input\<close> attribute is the document handle itself; it is carried
  beside the result in the state below.
\<close>

record 'e ConversionResult =
  pages :: "Page list"
  errors :: "ErrorItem list"
  status :: ConversionStatus
  output' :: "'e list"

text \<open>
  Modelled from the spec: the constructor \<^verbatim>\<open>ConversionResult(input=in_doc)\<close> belongs to
  \<^verbatim>\<open>docling/datamodel/document.py\<close>, which is not among the sources. By the spec (3) a
  result is created at the start of one document's conversion and populated by each
  phase, so a fresh one has no pages, no errors and an empty output. The spec does not
  give the status a fresh result carries; it is a parameter here.
\<close>

definition ConversionResult_init :: "ConversionStatus \<Rightarrow> 'e ConversionResult" where
  "ConversionResult_init st0 = \<lparr>pages = [], errors = [], status = st0, output' = []\<rparr>"

text \<open>
  The objects one conversion works on: the document handle, the conversion result, and
  the record of the enrichment calls made so far, each with the position of the model
  in the enrichment pipe and the batch it was given.
\<close>

record 'e state =
  in_doc :: InputDocument
  conv_res :: "'e ConversionResult"
  enrich_calls :: "(nat \<times> 'e list) list"

section \<open>Settings\<close>

text \<open>
  \<^verbatim>\<open>docling/datamodel/settings.py\<close>: \<^verbatim>\<open>BatchConcurrencySettings\<close> is a pydantic model of
  five fields annotated \<^verbatim>\<open>int\<close>, each with a default and no validator. The constructor
  takes each field as an optional keyword argument.
\<close>

record BatchConcurrencySettings =
  doc_batch_size :: int
  doc_batch_concurrency :: int
  page_batch_size :: int
  page_batch_concurrency :: int
  elements_batch_size :: int

definition BatchConcurrencySettings_init ::
  "int option \<Rightarrow> int option \<Rightarrow> int option \<Rightarrow> int option \<Rightarrow> int option
     \<Rightarrow> BatchConcurrencySettings" where
  "BatchConcurrencySettings_init dbs dbc pbs pbc ebs =
     \<lparr>doc_batch_size = (case dbs of None \<Rightarrow> 2 | Some v \<Rightarrow> v),
      doc_batch_concurrency = (case dbc of None \<Rightarrow> 2 | Some v \<Rightarrow> v),
      page_batch_size = (case pbs of None \<Rightarrow> 4 | Some v \<Rightarrow> v),
      page_batch_concurrency = (case pbc of None \<Rightarrow> 2 | Some v \<Rightarrow> v),
      elements_batch_size = (case ebs of None \<Rightarrow> 16 | Some v \<Rightarrow> v)\<rparr>"

section \<open>Formatting a page number\<close>

text \<open>Python's \<^verbatim>\<open>str\<close> of an integer, as the f-strings of the pipeline use it.\<close>

definition digit_char :: "nat \<Rightarrow> char" where
  "digit_char d = ''0123456789'' ! d"

function str_nat :: "nat \<Rightarrow> string" where
  "str_nat n = (if n < 10 then [digit_char n] else str_nat (n div 10) @ [digit_char (n mod 10)])"
  by pat_completeness auto
termination
  by (relation "measure (\<lambda>n. n)") auto

declare str_nat.simps [simp del]

definition str_int :: "int \<Rightarrow> string" where
  "str_int i = (if i < 0 then CHR ''-'' # str_nat (nat (- i)) else str_nat (nat i))"

section \<open>The pipeline\<close>

text \<open>
  An enrichment model: its applicability predicate \<^verbatim>\<open>is_processable(doc, element)\<close> and
  its call on a batch, which the pipeline drains and whose result it drops; what is left
  of a call is whether it raised. What a model writes into the elements is not seen by
  the pipeline (it has no write-back), and the predicate is read on the document as the
  phase received it.
\<close>

record 'e BaseEnrichmentModel =
  is_processable :: "'e list \<Rightarrow> 'e \<Rightarrow> bool"
  enrich_call :: "'e list \<Rightarrow> 'e list \<Rightarrow> exn option"

text \<open>
  The attributes and abstract methods of a pipeline object. A build stage takes a batch
  of pages and gives the batch back or raises; a stage is modelled by what it does to a
  whole batch, and the pages it gives back are the states in which it leaves the page
  objects of the batch. \<^verbatim>\<open>initialize_page\<close> is the abstract method of
  \<^verbatim>\<open>PaginatedPipeline\<close>. The source chains the initialiser and the stages lazily and
  drains the chain inside the \<^verbatim>\<open>try\<close> block of the build, so a fault of any of them
  surfaces inside that block; this is what the model keeps of the laziness. The
  initialiser and the stages read the document handle; they are taken not to write it.
\<close>

record 'e pipeline =
  build_pipe :: "(Page list \<Rightarrow> exn + Page list) list"
  enrichment_pipe :: "'e BaseEnrichmentModel list"
  initialize_page :: "InputDocument \<Rightarrow> Page \<Rightarrow> exn + Page"

text \<open>\<^verbatim>\<open>map(functools.partial(self.initialize_page, in_doc), page_batch)\<close>, drained.\<close>

fun map_pages :: "(Page \<Rightarrow> exn + Page) \<Rightarrow> Page list \<Rightarrow> exn + Page list" where
  "map_pages f [] = Inr []"
| "map_pages f (p # ps) =
     (case f p of
        Inl e \<Rightarrow> Inl e
      | Inr p' \<Rightarrow> (case map_pages f ps of Inl e \<Rightarrow> Inl e | Inr ps' \<Rightarrow> Inr (p' # ps')))"

text \<open>\<^verbatim>\<open>PaginatedPipeline._apply_on_pages\<close>: the stages of the build pipe, chained.\<close>

fun apply_on_pages :: "(Page list \<Rightarrow> exn + Page list) list \<Rightarrow> Page list \<Rightarrow> exn + Page list" where
  "apply_on_pages [] page_batch = Inr page_batch"
| "apply_on_pages (model # rest) page_batch =
     (case model page_batch of
        Inl e \<Rightarrow> Inl e
      | Inr page_batch' \<Rightarrow> apply_on_pages rest page_batch')"

text \<open>
  The loop over the page batches in \<^verbatim>\<open>_build_document\<close>: each batch is initialised,
  run through the stages and drained before the next one starts. The result is the
  exception that ended the loop, if any, and the pages as the loop left them; a batch
  that raised and the batches after it are left as they were.
\<close>

fun convert_page_batches ::
  "'e pipeline \<Rightarrow> InputDocument \<Rightarrow> Page list list \<Rightarrow> exn option \<times> Page list" where
  "convert_page_batches self d [] = (None, [])"
| "convert_page_batches self d (page_batch # rest) =
     (case map_pages (initialize_page self d) page_batch of
        Inl e \<Rightarrow> (Some e, concat (page_batch # rest))
      | Inr init_pages \<Rightarrow>
          (case apply_on_pages (build_pipe self) init_pages of
             Inl e \<Rightarrow> (Some e, concat (page_batch # rest))
           | Inr pipeline_pages \<Rightarrow>
               (case convert_page_batches self d rest of
                  (r, ps) \<Rightarrow> (r, pipeline_pages @ ps))))"

definition isinstance_PdfDocumentBackend :: "DocumentBackend option \<Rightarrow> bool" where
  "isinstance_PdfDocumentBackend b = (case b of None \<Rightarrow> False | Some x \<Rightarrow> is_pdf_backend x)"

definition type_name :: "DocumentBackend option \<Rightarrow> string" where
  "type_name b = (case b of None \<Rightarrow> ''NoneType'' | Some x \<Rightarrow> backend_class x)"

definition not_pdf_message :: "InputDocument \<Rightarrow> string" where
  "not_pdf_message d =
     ''The selected backend '' @ type_name (doc_backend d) @ '' for '' @ file' d
       @ '' is not a PDF backend. Can not convert this with a PDF pipeline. ''
       @ ''Please check your format configuration on DocumentConverter.''"

text \<open>The loop \<^verbatim>\<open>for i in range(0, in_doc.page_count)\<close> that appends the pages.\<close>

definition create_pages :: "InputDocument \<Rightarrow> 'e ConversionResult \<Rightarrow> 'e ConversionResult" where
  "create_pages d c = c\<lparr>pages := pages c @ map new_Page [0 .. page_count d - 1]\<rparr>"

text \<open>The body of the \<^verbatim>\<open>try\<close> block of \<^verbatim>\<open>_build_document\<close>.\<close>

definition build_try ::
  "BatchConcurrencySettings \<Rightarrow> 'e pipeline \<Rightarrow> InputDocument \<Rightarrow> 'e ConversionResult
     \<Rightarrow> exn option \<times> 'e ConversionResult" where
  "build_try perf self d c =
     (case chunkify (pages c) (page_batch_size perf) of
        Inl e \<Rightarrow> (Some e, c)
      | Inr batches \<Rightarrow>
          (case convert_page_batches self d batches of
             (r, ps) \<Rightarrow> (r, c\<lparr>pages := ps\<rparr>)))"

text \<open>The \<^verbatim>\<open>finally\<close> block: \<^verbatim>\<open>if in_doc._backend: in_doc._backend.unload()\<close>.\<close>

definition build_finally :: "InputDocument \<Rightarrow> InputDocument" where
  "build_finally d =
     (case doc_backend d of
        None \<Rightarrow> d
      | Some b \<Rightarrow> d\<lparr>doc_backend := Some (DocumentBackend_unload b)\<rparr>)"

text \<open>
  \<^verbatim>\<open>PaginatedPipeline._build_document\<close>. The check of the backend's class comes first
  and raises outside the \<^verbatim>\<open>try\<close>; the handler sets the status to \<open>FAILURE\<close> and raises
  the exception again; the \<^verbatim>\<open>finally\<close> block runs on both ways out of the \<^verbatim>\<open>try\<close>.
\<close>

definition PaginatedPipeline_build_document ::
  "BatchConcurrencySettings \<Rightarrow> 'e pipeline \<Rightarrow> 'e state \<Rightarrow> exn option \<times> 'e state" where
  "PaginatedPipeline_build_document perf self s =
     (if \<not> isinstance_PdfDocumentBackend (doc_backend (in_doc s))
      then (Some (RuntimeError (not_pdf_message (in_doc s))), s)
      else
        (case build_try perf self (in_doc s) (create_pages (in_doc s) (conv_res s)) of
           (None, c) \<Rightarrow>
             (None, s\<lparr>in_doc := build_finally (in_doc s), conv_res := c\<rparr>)
         | (Some e, c) \<Rightarrow>
             (Some e, s\<lparr>in_doc := build_finally (in_doc s),
                         conv_res := c\<lparr>status := FAILURE\<rparr>\<rparr>)))"

text \<open>\<^verbatim>\<open>BasePipeline._assemble_document\<close>: the result as it is.\<close>

definition BasePipeline_assemble_document :: "'e state \<Rightarrow> exn option \<times> 'e state" where
  "BasePipeline_assemble_document s = (None, s)"

text \<open>The inner generator \<^verbatim>\<open>_filter_elements\<close> of \<^verbatim>\<open>_enrich_document\<close>.\<close>

definition filter_elements :: "'e list \<Rightarrow> 'e BaseEnrichmentModel \<Rightarrow> 'e list" where
  "filter_elements doc model = filter (is_processable model doc) doc"

text \<open>The loop over the element batches of one model: one call per batch.\<close>

fun enrich_batches ::
  "nat \<Rightarrow> 'e BaseEnrichmentModel \<Rightarrow> 'e list \<Rightarrow> 'e list list \<Rightarrow> (nat \<times> 'e list) list
     \<Rightarrow> exn option \<times> (nat \<times> 'e list) list" where
  "enrich_batches i model doc [] calls = (None, calls)"
| "enrich_batches i model doc (element_batch # rest) calls =
     (case enrich_call model doc element_batch of
        Some e \<Rightarrow> (Some e, calls @ [(i, element_batch)])
      | None \<Rightarrow> enrich_batches i model doc rest (calls @ [(i, element_batch)]))"

text \<open>The loop over the models of the enrichment pipe, each with its position.\<close>

fun enrich_models ::
  "int \<Rightarrow> 'e list \<Rightarrow> (nat \<times> 'e BaseEnrichmentModel) list \<Rightarrow> (nat \<times> 'e list) list
     \<Rightarrow> exn option \<times> (nat \<times> 'e list) list" where
  "enrich_models bs doc [] calls = (None, calls)"
| "enrich_models bs doc ((i, model) # rest) calls =
     (case chunkify (filter_elements doc model) bs of
        Inl e \<Rightarrow> (Some e, calls)
      | Inr batches \<Rightarrow>
          (case enrich_batches i model doc batches calls of
             (Some e, calls') \<Rightarrow> (Some e, calls')
           | (None, calls') \<Rightarrow> enrich_models bs doc rest calls'))"

text \<open>\<^verbatim>\<open>BasePipeline._enrich_document\<close>.\<close>

definition BasePipeline_enrich_document ::
  "BatchConcurrencySettings \<Rightarrow> 'e pipeline \<Rightarrow> 'e state \<Rightarrow> exn option \<times> 'e state" where
  "BasePipeline_enrich_document perf self s =
     (case enrich_models (elements_batch_size perf) (output' (conv_res s))
             (enumerate 0 (enrichment_pipe self)) (enrich_calls s) of
        (r, calls) \<Rightarrow> (r, s\<lparr>enrich_calls := calls\<rparr>))"

text \<open>
  \<^verbatim>\<open>PaginatedPipeline._determine_status\<close>: the loop over the pages, with the local
  \<open>status\<close> and the error list of the result. \<^verbatim>\<open>page._backend.is_valid()\<close> on a page
  whose backend is \<^verbatim>\<open>None\<close> raises.
\<close>

definition backend_error :: "Page \<Rightarrow> PdfPageBackend \<Rightarrow> ErrorItem" where
  "backend_error page b =
     \<lparr>component_type = DOCUMENT_BACKEND,
      module_name' = page_backend_class b,
      error_message = ''Page '' @ str_int (page_no page) @ '' failed to parse.''\<rparr>"

fun determine_status_loop ::
  "Page list \<Rightarrow> ConversionStatus \<Rightarrow> ErrorItem list
     \<Rightarrow> (exn + ConversionStatus) \<times> ErrorItem list" where
  "determine_status_loop [] st errs = (Inr st, errs)"
| "determine_status_loop (page # rest) st errs =
     (case page_backend page of
        None \<Rightarrow> (Inl (AttributeError ''NoneType object has no attribute is_valid''), errs)
      | Some b \<Rightarrow>
          (if \<not> is_valid b
           then determine_status_loop rest PARTIAL_SUCCESS (errs @ [backend_error page b])
           else determine_status_loop rest st errs))"

definition PaginatedPipeline_determine_status ::
  "'e state \<Rightarrow> (exn + ConversionStatus) \<times> 'e state" where
  "PaginatedPipeline_determine_status s =
     (case determine_status_loop (pages (conv_res s)) SUCCESS (errors (conv_res s)) of
        (r, errs) \<Rightarrow> (r, s\<lparr>conv_res := (conv_res s)\<lparr>errors := errs\<rparr>\<rparr>))"

text \<open>
  The four phase methods \<^verbatim>\<open>execute\<close> calls on \<^verbatim>\<open>self\<close>. A subclass supplies
  \<^verbatim>\<open>_build_document\<close> and \<^verbatim>\<open>_determine_status\<close> and may override the other two.
\<close>

record 'e methods =
  build_document :: "'e state \<Rightarrow> exn option \<times> 'e state"
  assemble_document :: "'e state \<Rightarrow> exn option \<times> 'e state"
  enrich_document :: "'e state \<Rightarrow> exn option \<times> 'e state"
  determine_status :: "'e state \<Rightarrow> (exn + ConversionStatus) \<times> 'e state"

definition PaginatedPipeline :: "BatchConcurrencySettings \<Rightarrow> 'e pipeline \<Rightarrow> 'e methods" where
  "PaginatedPipeline perf self =
     \<lparr>build_document = PaginatedPipeline_build_document perf self,
      assemble_document = BasePipeline_assemble_document,
      enrich_document = BasePipeline_enrich_document perf self,
      determine_status = PaginatedPipeline_determine_status\<rparr>"

text \<open>The body of the \<^verbatim>\<open>try\<close> block of \<^verbatim>\<open>execute\<close>: the four phases in order.\<close>

definition execute_try :: "'e methods \<Rightarrow> 'e state \<Rightarrow> exn option \<times> 'e state" where
  "execute_try m s =
     (case build_document m s of
        (Some e, s1) \<Rightarrow> (Some e, s1)
      | (None, s1) \<Rightarrow>
          (case assemble_document m s1 of
             (Some e, s2) \<Rightarrow> (Some e, s2)
           | (None, s2) \<Rightarrow>
               (case enrich_document m s2 of
                  (Some e, s3) \<Rightarrow> (Some e, s3)
                | (None, s3) \<Rightarrow>
                    (case determine_status m s3 of
                       (Inl e, s4) \<Rightarrow> (Some e, s4)
                     | (Inr st, s4) \<Rightarrow>
                         (None, s4\<lparr>conv_res := (conv_res s4)\<lparr>status := st\<rparr>\<rparr>)))))"

text \<open>
  \<^verbatim>\<open>BasePipeline.execute\<close>. The first component of the result is the exception raised
  to the caller, or \<open>None\<close> when \<^verbatim>\<open>execute\<close> returns; the result it returns is then the
  \<open>conv_res\<close> of the final state.
\<close>

definition BasePipeline_execute ::
  "'e methods \<Rightarrow> ConversionStatus \<Rightarrow> InputDocument \<Rightarrow> bool \<Rightarrow> exn option \<times> 'e state" where
  "BasePipeline_execute m st0 d raises_on_error =
     (let s = \<lparr>in_doc = d, conv_res = ConversionResult_init st0, enrich_calls = []\<rparr> in
      if \<not> valid d
      then (None, s\<lparr>conv_res := (conv_res s)\<lparr>status := FAILURE\<rparr>\<rparr>)
      else
        (case execute_try m s of
           (None, s') \<Rightarrow> (None, s')
         | (Some e, s') \<Rightarrow>
             (if raises_on_error then Some e else None,
              s'\<lparr>conv_res := (conv_res s')\<lparr>status := FAILURE\<rparr>\<rparr>)))"

section \<open>The PowerPoint backend\<close>

text \<open>
  \<^verbatim>\<open>docling/backend/mspowerpoint_backend.py\<close>. The attribute \<^verbatim>\<open>path_or_stream\<close> holds a
  path, a reference to a \<^verbatim>\<open>BytesIO\<close> object, or \<^verbatim>\<open>None\<close>. A stream is an object of its
  own, which the caller may hold too, so whether each stream is closed is kept beside
  the backend.
\<close>

datatype source_ref = Path string | BytesIO nat

record MsPowerpointDocumentBackend =
  path_or_stream :: "source_ref option"
  document_hash :: string

record pptx_heap =
  pptx_backend :: MsPowerpointDocumentBackend
  stream_closed :: "nat \<Rightarrow> bool"

definition MsPowerpointDocumentBackend_unload :: "pptx_heap \<Rightarrow> pptx_heap" where
  "MsPowerpointDocumentBackend_unload h =
     (let h1 = (case path_or_stream (pptx_backend h) of
                  Some (BytesIO a) \<Rightarrow> h\<lparr>stream_closed := (stream_closed h)(a := True)\<rparr>
                | _ \<Rightarrow> h)
      in h1\<lparr>pptx_backend := (pptx_backend h1)\<lparr>path_or_stream := None\<rparr>\<rparr>)"

text \<open>
  The PowerPoint backend as a document handle carries it: a declarative backend, not an
  instance of \<^verbatim>\<open>PdfDocumentBackend\<close>.
\<close>

definition pptx_document_backend :: DocumentBackend where
  "pptx_document_backend =
     \<lparr>backend_class = ''MsPowerpointDocumentBackend'', is_pdf_backend = False, unload_calls = 0\<rparr>"

section \<open>Example inputs\<close>

text \<open>
  Concrete settings, documents and pipelines on which the theorems below are
  instantiated: the default settings; a PDF backend that has not been unloaded; a valid
  document of \<open>n\<close> pages on a given backend; and a pipeline with no enrichment model
  whose page initialiser attaches a page backend that is invalid on the listed pages.
\<close>

definition default_perf :: BatchConcurrencySettings where
  "default_perf = BatchConcurrencySettings_init None None None None None"

definition pdf_document_backend :: DocumentBackend where
  "pdf_document_backend =
     \<lparr>backend_class = ''PdfDocumentBackend'', is_pdf_backend = True, unload_calls = 0\<rparr>"

definition example_document :: "int \<Rightarrow> DocumentBackend \<Rightarrow> InputDocument" where
  "example_document n b =
     \<lparr>file' = ''example'', valid = True, page_count = n, doc_backend = Some b\<rparr>"

definition example_page_backend :: "bool \<Rightarrow> PdfPageBackend" where
  "example_page_backend v = \<lparr>page_backend_class = ''PdfPageBackend'', is_valid = v\<rparr>"

definition example_pipeline ::
  "int list \<Rightarrow> (Page list \<Rightarrow> exn + Page list) list \<Rightarrow> nat pipeline" where
  "example_pipeline bad stages =
     \<lparr>build_pipe = stages,
      enrichment_pipe = [],
      initialize_page =
        (\<lambda>d p. Inr (p\<lparr>page_backend := Some (example_page_backend (page_no p \<notin> set bad))\<rparr>))\<rparr>"

definition failing_stage :: "Page list \<Rightarrow> exn + Page list" where
  "failing_stage page_batch = Inl (StageFault ''stage failed'')"

section \<open>Properties of the batch scheduler\<close>

lemma chunks_Nil [simp]: "chunks b [] = []"
  by (simp add: chunks.simps)

lemma chunks_zero [simp]: "chunks 0 xs = []"
  by (simp add: chunks.simps)

lemma chunks_step: "0 < b \<Longrightarrow> xs \<noteq> [] \<Longrightarrow> chunks b xs = take b xs # chunks b (drop b xs)"
  by (subst chunks.simps) simp

lemma concat_chunks: "0 < b \<Longrightarrow> concat (chunks b xs) = xs"
proof (induction b xs rule: chunks.induct)
  case (1 b xs)
  show ?case
  proof (cases "xs = []")
    case True
    then show ?thesis by simp
  next
    case False
    with 1 show ?thesis by (simp add: chunks_step)
  qed
qed

lemma ceil_div_small: "0 < (n::nat) \<Longrightarrow> n \<le> b \<Longrightarrow> (n + b - 1) div b = 1"
  by (rule div_nat_eqI) auto

lemma ceil_div_step:
  assumes b: "0 < (b::nat)" and n: "b < n"
  shows "(n + b - 1) div b = Suc ((n - b + b - 1) div b)"
proof -
  define m where "m = n - b + b - 1"
  have "n + b - 1 = m + b" using b n by (simp add: m_def)
  then have "(n + b - 1) div b = (m + b) div b" by simp
  also have "\<dots> = Suc (m div b)" using b by simp
  finally show ?thesis by (simp add: m_def)
qed

lemma length_chunks: "0 < b \<Longrightarrow> length (chunks b xs) = (length xs + b - 1) div b"
proof (induction b xs rule: chunks.induct)
  case (1 b xs)
  show ?case
  proof (cases "xs = []")
    case True
    with 1(2) show ?thesis by simp
  next
    case False
    then have pos: "0 < length xs" by simp
    have ih: "length (chunks b (drop b xs)) = (length (drop b xs) + b - 1) div b"
      using 1 False by simp
    have step: "chunks b xs = take b xs # chunks b (drop b xs)"
      using 1(2) False by (rule chunks_step)
    show ?thesis
    proof (cases "length xs \<le> b")
      case True
      then have "drop b xs = []" by simp
      then have "length (chunks b xs) = 1" using step by simp
      also have "\<dots> = (length xs + b - 1) div b"
        using ceil_div_small [OF pos True] by simp
      finally show ?thesis .
    next
      case gt: False
      then have "b < length xs" by simp
      from ceil_div_step [OF 1(2) this]
      have "(length xs + b - 1) div b = Suc ((length xs - b + b - 1) div b)" .
      with ih step show ?thesis by simp
    qed
  qed
qed

lemma chunks_nth_full:
  "0 < b \<Longrightarrow> Suc i < length (chunks b xs) \<Longrightarrow> length (chunks b xs ! i) = b"
proof (induction b xs arbitrary: i rule: chunks.induct)
  case (1 b xs)
  have ne: "xs \<noteq> []" using 1(3) by auto
  have step: "chunks b xs = take b xs # chunks b (drop b xs)"
    using 1(2) ne by (rule chunks_step)
  have rest: "chunks b (drop b xs) \<noteq> []" using 1(3) step by auto
  then have "drop b xs \<noteq> []" by auto
  then have full: "length (take b xs) = b" by simp
  show ?case
  proof (cases i)
    case 0
    with step full show ?thesis by simp
  next
    case (Suc j)
    with 1(3) step have "Suc j < length (chunks b (drop b xs))" by simp
    with 1 ne have "length (chunks b (drop b xs) ! j) = b" by simp
    with Suc step show ?thesis by simp
  qed
qed

lemma chunks_last:
  "0 < b \<Longrightarrow> xs \<noteq> [] \<Longrightarrow>
   length (last (chunks b xs)) = (if length xs mod b = 0 then b else length xs mod b)"
proof (induction b xs rule: chunks.induct)
  case (1 b xs)
  have step: "chunks b xs = take b xs # chunks b (drop b xs)"
    using 1(2,3) by (rule chunks_step)
  show ?case
  proof (cases "drop b xs = []")
    case True
    then have le: "length xs \<le> b" by simp
    have pos: "0 < length xs" using 1(3) by simp
    have "length (last (chunks b xs)) = length xs"
      using step True le by simp
    moreover have "(if length xs mod b = 0 then b else length xs mod b) = length xs"
    proof (cases "length xs = b")
      case True
      then show ?thesis by simp
    next
      case False
      with le have "length xs < b" by simp
      with pos show ?thesis by simp
    qed
    ultimately show ?thesis by simp
  next
    case False
    then have gt: "b < length xs" by simp
    have ne: "chunks b (drop b xs) \<noteq> []"
      using False 1(2) by (simp add: chunks_step)
    have "length (last (chunks b xs)) = length (last (chunks b (drop b xs)))"
      using step ne by simp
    also have "\<dots> = (if length (drop b xs) mod b = 0 then b else length (drop b xs) mod b)"
      using 1 False by simp
    also have "length (drop b xs) mod b = length xs mod b"
      using gt by (simp add: le_mod_geq)
    finally show ?thesis .
  qed
qed

lemma nat_ceiling_div:
  assumes "0 < (b::nat)"
  shows "int ((n + b - 1) div b) = \<lceil>real n / real b\<rceil>"
proof -
  define q where "q = (n + b - 1) div b"
  define r where "r = (n + b - 1) mod b"
  have r: "r < b" using assms by (simp add: r_def)
  have eq: "n + b - 1 = q * b + r" by (simp add: q_def r_def)
  have eq': "real n + real b = real q * real b + real r + 1"
  proof -
    have "n + b = q * b + r + 1" using eq assms by linarith
    then have "real (n + b) = real (q * b + r + 1)" by simp
    then show ?thesis by simp
  qed
  have bpos: "0 < real b" using assms by simp
  have up: "real n / real b \<le> real q"
  proof -
    have "real n \<le> real q * real b" using eq' r by simp
    then show ?thesis using bpos by (simp add: pos_divide_le_eq)
  qed
  have lo: "real q - 1 < real n / real b"
  proof -
    have "(real q - 1) * real b < real n" using eq' r by (simp add: algebra_simps)
    then show ?thesis using bpos by (simp add: pos_less_divide_eq)
  qed
  have "\<lceil>real n / real b\<rceil> = int q"
    by (rule ceiling_unique) (use up lo in simp_all)
  then show ?thesis by (simp add: q_def)
qed

text \<open>
  C5. For a batch size \<open>b\<close> of at least 1 and a sequence of \<open>n\<close> elements, the batch
  scheduler returns (it does not fail) the ceiling of \<open>n / b\<close> batches; every batch
  but the last holds exactly \<open>b\<close> elements; the last one holds \<open>n mod b\<close> elements, or
  \<open>b\<close> when \<open>b\<close> divides \<open>n\<close>; and the batches concatenated in order are the sequence
  itself, so nothing is reordered, dropped or repeated.
\<close>

theorem chunkify_batches:
  assumes "1 \<le> b"
  shows "\<exists>bs. chunkify xs b = Inr bs
           \<and> int (length bs) = \<lceil>real (length xs) / real_of_int b\<rceil>
           \<and> concat bs = xs
           \<and> (\<forall>i. Suc i < length bs \<longrightarrow> int (length (bs ! i)) = b)
           \<and> (bs \<noteq> [] \<longrightarrow>
                int (length (last bs)) =
                  (if int (length xs) mod b = 0 then b else int (length xs) mod b))"
proof -
  define k where "k = nat b"
  have k: "0 < k" and bk: "b = int k" using assms by (simp_all add: k_def)
  have run: "chunkify xs b = Inr (chunks k xs)"
    using assms by (simp add: chunkify_def k_def)
  have n: "int (length (chunks k xs)) = \<lceil>real (length xs) / real_of_int b\<rceil>"
    using nat_ceiling_div [OF k, of "length xs"] by (simp add: length_chunks [OF k] bk)
  have c: "concat (chunks k xs) = xs" using k by (rule concat_chunks)
  have full: "\<forall>i. Suc i < length (chunks k xs) \<longrightarrow> int (length (chunks k xs ! i)) = b"
  proof (intro allI impI)
    fix i assume "Suc i < length (chunks k xs)"
    from chunks_nth_full [OF k this] show "int (length (chunks k xs ! i)) = b"
      by (simp add: bk)
  qed
  have lst: "chunks k xs \<noteq> [] \<longrightarrow>
      int (length (last (chunks k xs))) =
        (if int (length xs) mod b = 0 then b else int (length xs) mod b)"
  proof
    assume "chunks k xs \<noteq> []"
    then have "xs \<noteq> []" by auto
    from chunks_last [OF k this]
    have "length (last (chunks k xs)) = (if length xs mod k = 0 then k else length xs mod k)" .
    then have "int (length (last (chunks k xs))) =
        (if length xs mod k = 0 then int k else int (length xs mod k))" by simp
    also have "\<dots> = (if int (length xs) mod b = 0 then b else int (length xs) mod b)"
      unfolding bk zmod_int [symmetric] by simp
    finally show "int (length (last (chunks k xs))) =
        (if int (length xs) mod b = 0 then b else int (length xs) mod b)" .
  qed
  from run n c full lst show ?thesis by blast
qed

theorem chunkify_batches_witness:
  "(1::int) \<le> 4 \<and> (\<exists>bs. chunkify [0, 1, 2, 3, 4, 5, 6, 7, 8, 9 :: nat] 4 = Inr bs
     \<and> map length bs = [4, 4, 2] \<and> concat bs = [0, 1, 2, 3, 4, 5, 6, 7, 8, 9])"
proof -
  have h: "(1::int) \<le> 4" by simp
  have e: "chunkify [0, 1, 2, 3, 4, 5, 6, 7, 8, 9 :: nat] 4
             = Inr [[0, 1, 2, 3], [4, 5, 6, 7], [8, 9]]"
    by (simp add: chunkify_def chunks_step)
  from chunkify_batches [OF h, of "[0, 1, 2, 3, 4, 5, 6, 7, 8, 9 :: nat]"] e h
  show ?thesis by simp
qed

section \<open>Teardown of the PowerPoint backend\<close>

text \<open>
  C9. \<^verbatim>\<open>unload\<close> of the PowerPoint backend is idempotent: a second call leaves the
  backend, and every stream, exactly as the first call left them, so \<^verbatim>\<open>unload\<close> composed
  with itself is \<^verbatim>\<open>unload\<close>; \<^verbatim>\<open>path_or_stream\<close> is \<^verbatim>\<open>None\<close> after one call and after two.
  The model of \<^verbatim>\<open>unload\<close> has no way to raise, as the source has none on a path, a stream
  or \<^verbatim>\<open>None\<close>.
\<close>

theorem unload_idempotent:
  "MsPowerpointDocumentBackend_unload (MsPowerpointDocumentBackend_unload h)
     = MsPowerpointDocumentBackend_unload h
   \<and> path_or_stream (pptx_backend (MsPowerpointDocumentBackend_unload h)) = None
   \<and> path_or_stream (pptx_backend (MsPowerpointDocumentBackend_unload
         (MsPowerpointDocumentBackend_unload h))) = None"
  by (simp add: MsPowerpointDocumentBackend_unload_def Let_def
           split: option.splits source_ref.splits)

section \<open>The batching settings\<close>

text \<open>
  C8, as the spec states it, fails on the settings class: a page batch size of 0 is
  accepted and stored.
\<close>

theorem settings_accept_zero:
  "\<not> 1 \<le> page_batch_size (BatchConcurrencySettings_init None None (Some 0) None None)"
  by (simp add: BatchConcurrencySettings_init_def)

text \<open>
  C8, amended. The defaults are \<open>doc_batch_size = 2\<close>, \<open>doc_batch_concurrency = 2\<close>,
  \<open>page_batch_size = 4\<close>, \<open>page_batch_concurrency = 2\<close> and \<open>elements_batch_size = 16\<close>;
  the settings class puts no lower bound on any of them: every integer supplied is
  stored as it is.
\<close>

theorem settings_defaults_unchecked:
  "BatchConcurrencySettings_init None None None None None =
     \<lparr>doc_batch_size = 2, doc_batch_concurrency = 2, page_batch_size = 4,
      page_batch_concurrency = 2, elements_batch_size = 16\<rparr>
   \<and> BatchConcurrencySettings_init (Some a) (Some b) (Some c) (Some d) (Some e) =
     \<lparr>doc_batch_size = a, doc_batch_concurrency = b, page_batch_size = c,
      page_batch_concurrency = d, elements_batch_size = e\<rparr>"
  by (simp add: BatchConcurrencySettings_init_def)

section \<open>Invalid input\<close>

text \<open>
  C3. For an input document that fails the validity check, \<^verbatim>\<open>execute\<close> returns (it does
  not raise) a result with status \<open>FAILURE\<close>, no error items and no pages; the document
  handle is as it was, so no \<^verbatim>\<open>unload()\<close> was called; no enrichment call was made; and
  the outcome does not depend on the phase methods, none of which runs.
\<close>

theorem execute_invalid_input:
  assumes "\<not> valid d"
  shows "BasePipeline_execute m st0 d raises_on_error =
           (None, \<lparr>in_doc = d,
                   conv_res = \<lparr>pages = [], errors = [], status = FAILURE, output' = []\<rparr>,
                   enrich_calls = []\<rparr>)"
  using assms by (simp add: BasePipeline_execute_def ConversionResult_init_def)

theorem execute_invalid_input_witness:
  "\<not> valid ((example_document 5 pdf_document_backend)\<lparr>valid := False\<rparr>)
   \<and> BasePipeline_execute (PaginatedPipeline default_perf (example_pipeline [] [])) PENDING
        ((example_document 5 pdf_document_backend)\<lparr>valid := False\<rparr>) True =
        (None, \<lparr>in_doc = (example_document 5 pdf_document_backend)\<lparr>valid := False\<rparr>,
                conv_res = \<lparr>pages = [], errors = [], status = FAILURE, output' = []\<rparr>,
                enrich_calls = []\<rparr>)"
  using execute_invalid_input
    [of "(example_document 5 pdf_document_backend)\<lparr>valid := False\<rparr>"
        "PaginatedPipeline default_perf (example_pipeline [] [])" PENDING True]
  by (simp add: example_document_def)

section \<open>A backend that is not a PDF backend\<close>

lemma execute_try_build_fault:
  "build_document m s = (Some e, s1) \<Longrightarrow> execute_try m s = (Some e, s1)"
  by (simp add: execute_try_def)

text \<open>
  C10. For a valid document whose backend is not an instance of \<^verbatim>\<open>PdfDocumentBackend\<close>,
  the build phase of \<^verbatim>\<open>PaginatedPipeline\<close> raises a \<^verbatim>\<open>RuntimeError\<close> and leaves the state
  as it found it: no page was created and the backend was not unloaded, the cleanup
  block not having been entered. With \<^verbatim>\<open>raises_on_error\<close> false, \<^verbatim>\<open>execute\<close> returns a
  result with status \<open>FAILURE\<close> and an empty page list; with it true, \<^verbatim>\<open>execute\<close> raises
  that \<^verbatim>\<open>RuntimeError\<close>.
\<close>

theorem execute_not_pdf_backend:
  assumes "valid d" and "\<not> isinstance_PdfDocumentBackend (doc_backend d)"
  shows "PaginatedPipeline_build_document perf self
           \<lparr>in_doc = d, conv_res = ConversionResult_init st0, enrich_calls = []\<rparr>
         = (Some (RuntimeError (not_pdf_message d)),
            \<lparr>in_doc = d, conv_res = ConversionResult_init st0, enrich_calls = []\<rparr>)
     \<and> BasePipeline_execute (PaginatedPipeline perf self) st0 d False =
           (None, \<lparr>in_doc = d,
                   conv_res = \<lparr>pages = [], errors = [], status = FAILURE, output' = []\<rparr>,
                   enrich_calls = []\<rparr>)
     \<and> fst (BasePipeline_execute (PaginatedPipeline perf self) st0 d True) =
           Some (RuntimeError (not_pdf_message d))"
proof -
  let ?s = "\<lparr>in_doc = d, conv_res = ConversionResult_init st0, enrich_calls = []\<rparr>
              :: 'a state"
  have b: "PaginatedPipeline_build_document perf self ?s
             = (Some (RuntimeError (not_pdf_message d)), ?s)"
    using assms(2) by (simp add: PaginatedPipeline_build_document_def)
  then have "build_document (PaginatedPipeline perf self) ?s
             = (Some (RuntimeError (not_pdf_message d)), ?s)"
    by (simp add: PaginatedPipeline_def)
  then have t: "execute_try (PaginatedPipeline perf self) ?s
             = (Some (RuntimeError (not_pdf_message d)), ?s)"
    by (rule execute_try_build_fault)
  show ?thesis
    using assms(1) b t by (simp add: BasePipeline_execute_def ConversionResult_init_def)
qed

theorem execute_not_pdf_backend_witness:
  "valid (example_document 3 pptx_document_backend)
   \<and> \<not> isinstance_PdfDocumentBackend (doc_backend (example_document 3 pptx_document_backend))
   \<and> BasePipeline_execute (PaginatedPipeline default_perf (example_pipeline [] [])) PENDING
        (example_document 3 pptx_document_backend) False =
        (None, \<lparr>in_doc = example_document 3 pptx_document_backend,
                conv_res = \<lparr>pages = [], errors = [], status = FAILURE, output' = []\<rparr>,
                enrich_calls = []\<rparr>)
   \<and> fst (BasePipeline_execute (PaginatedPipeline default_perf (example_pipeline [] [])) PENDING
        (example_document 3 pptx_document_backend) True) =
        Some (RuntimeError (''The selected backend MsPowerpointDocumentBackend for example''
          @ '' is not a PDF backend. Can not convert this with a PDF pipeline. ''
          @ ''Please check your format configuration on DocumentConverter.''))"
proof -
  have v: "valid (example_document 3 pptx_document_backend)"
    by (simp add: example_document_def)
  have n: "\<not> isinstance_PdfDocumentBackend (doc_backend (example_document 3 pptx_document_backend))"
    by (simp add: example_document_def pptx_document_backend_def isinstance_PdfDocumentBackend_def)
  have m: "not_pdf_message (example_document 3 pptx_document_backend) =
      ''The selected backend MsPowerpointDocumentBackend for example''
          @ '' is not a PDF backend. Can not convert this with a PDF pipeline. ''
          @ ''Please check your format configuration on DocumentConverter.''"
    by (simp add: not_pdf_message_def example_document_def pptx_document_backend_def type_name_def)
  from execute_not_pdf_backend [OF v n, of default_perf "example_pipeline [] []" PENDING] v n
  show ?thesis unfolding m by simp
qed

section \<open>Unloading the backend\<close>

lemma build_in_doc:
  "in_doc (snd (PaginatedPipeline_build_document perf self s)) =
     (if isinstance_PdfDocumentBackend (doc_backend (in_doc s))
      then build_finally (in_doc s) else in_doc s)"
  by (simp add: PaginatedPipeline_build_document_def split: prod.splits option.splits)

lemma enrich_frame:
  "in_doc (snd (BasePipeline_enrich_document perf self s)) = in_doc s
   \<and> conv_res (snd (BasePipeline_enrich_document perf self s)) = conv_res s"
  by (simp add: BasePipeline_enrich_document_def split: prod.splits)

lemma determine_status_frame:
  "in_doc (snd (PaginatedPipeline_determine_status s)) = in_doc s
   \<and> pages (conv_res (snd (PaginatedPipeline_determine_status s))) = pages (conv_res s)
   \<and> enrich_calls (snd (PaginatedPipeline_determine_status s)) = enrich_calls s"
  by (simp add: PaginatedPipeline_determine_status_def split: prod.splits)

lemma execute_try_in_doc:
  "in_doc (snd (execute_try (PaginatedPipeline perf self) s)) =
     (if isinstance_PdfDocumentBackend (doc_backend (in_doc s))
      then build_finally (in_doc s) else in_doc s)"
proof -
  obtain r1 s1 where b: "PaginatedPipeline_build_document perf self s = (r1, s1)"
    by (cases "PaginatedPipeline_build_document perf self s")
  have d1: "in_doc s1 = (if isinstance_PdfDocumentBackend (doc_backend (in_doc s))
      then build_finally (in_doc s) else in_doc s)"
    using build_in_doc [of perf self s] b by simp
  obtain r3 s3 where e: "BasePipeline_enrich_document perf self s1 = (r3, s3)"
    by (cases "BasePipeline_enrich_document perf self s1")
  have d3: "in_doc s3 = in_doc s1" using enrich_frame [of perf self s1] e by simp
  obtain r4 s4 where t: "PaginatedPipeline_determine_status s3 = (r4, s4)"
    by (cases "PaginatedPipeline_determine_status s3")
  have d4: "in_doc s4 = in_doc s3" using determine_status_frame [of s3] t by simp
  show ?thesis
    using b e t d1 d3 d4
    by (simp add: execute_try_def PaginatedPipeline_def BasePipeline_assemble_document_def
             split: option.splits sum.splits)
qed

lemma execute_in_doc:
  "in_doc (snd (BasePipeline_execute (PaginatedPipeline perf self) st0 d raises_on_error)) =
     (if valid d \<and> isinstance_PdfDocumentBackend (doc_backend d)
      then build_finally d else d)"
proof -
  let ?s = "\<lparr>in_doc = d, conv_res = ConversionResult_init st0, enrich_calls = []\<rparr>
              :: 'a state"
  obtain r s' where t: "execute_try (PaginatedPipeline perf self) ?s = (r, s')"
    by (cases "execute_try (PaginatedPipeline perf self) ?s")
  have "in_doc s' = (if isinstance_PdfDocumentBackend (doc_backend d)
      then build_finally d else d)"
    using execute_try_in_doc [of perf self ?s] t by simp
  then show ?thesis
    using t by (simp add: BasePipeline_execute_def Let_def split: option.splits)
qed

text \<open>
  C2, as the spec states it, fails: a valid document whose backend is the PowerPoint
  backend holds a backend, and \<^verbatim>\<open>execute\<close> of a \<^verbatim>\<open>PaginatedPipeline\<close> ends with that
  backend never unloaded.
\<close>

theorem unload_never_called_counterexample:
  "doc_backend (example_document 3 pptx_document_backend) = Some pptx_document_backend
   \<and> map_option unload_calls
       (doc_backend (in_doc (snd (BasePipeline_execute
          (PaginatedPipeline default_perf (example_pipeline [] [])) PENDING
          (example_document 3 pptx_document_backend) False)))) = Some 0"
  by (simp add: execute_in_doc example_document_def pptx_document_backend_def
        isinstance_PdfDocumentBackend_def)

text \<open>
  C2, amended. \<^verbatim>\<open>execute\<close> of a \<^verbatim>\<open>PaginatedPipeline\<close> calls \<^verbatim>\<open>unload()\<close> on the backend of
  the document exactly once when the document is valid and its backend is an instance
  of \<^verbatim>\<open>PdfDocumentBackend\<close>, whatever the stages, the page initialiser and the enrichment
  models do (the build succeeded, a page failed or a stage raised); it calls it not at
  all when the document is invalid or its backend is not a PDF backend.
\<close>

theorem unload_calls_of_execute:
  "map_option unload_calls
     (doc_backend (in_doc (snd (BasePipeline_execute (PaginatedPipeline perf self) st0 d
                                  raises_on_error))))
   = map_option (\<lambda>b. if valid d \<and> is_pdf_backend b then Suc (unload_calls b)
                       else unload_calls b) (doc_backend d)"
  by (simp add: execute_in_doc build_finally_def isinstance_PdfDocumentBackend_def
        DocumentBackend_unload_def split: option.splits)

section \<open>Faults inside the phases\<close>

text \<open>
  C4. On a valid input, when an exception \<open>e\<close> is raised inside the build phase, or the
  build returns and \<open>e\<close> is raised inside the assemble phase, or those two return and
  \<open>e\<close> is raised inside the enrich phase, or all three return and \<open>e\<close> is raised by the
  status determination, then \<^verbatim>\<open>execute\<close> with \<^verbatim>\<open>raises_on_error\<close> true raises \<open>e\<close> itself,
  and \<^verbatim>\<open>execute\<close> with \<^verbatim>\<open>raises_on_error\<close> false raises nothing and returns a result
  with status \<open>FAILURE\<close>. The phases are any methods of a subclass.
\<close>

theorem execute_fault:
  assumes "valid d"
    and "(\<exists>s1. build_document m \<lparr>in_doc = d, conv_res = ConversionResult_init st0,
                                  enrich_calls = []\<rparr> = (Some e, s1))
       \<or> (\<exists>s1 s2. build_document m \<lparr>in_doc = d, conv_res = ConversionResult_init st0,
                                  enrich_calls = []\<rparr> = (None, s1)
             \<and> assemble_document m s1 = (Some e, s2))
       \<or> (\<exists>s1 s2 s3. build_document m \<lparr>in_doc = d, conv_res = ConversionResult_init st0,
                                  enrich_calls = []\<rparr> = (None, s1)
             \<and> assemble_document m s1 = (None, s2)
             \<and> enrich_document m s2 = (Some e, s3))
       \<or> (\<exists>s1 s2 s3 s4. build_document m \<lparr>in_doc = d, conv_res = ConversionResult_init st0,
                                  enrich_calls = []\<rparr> = (None, s1)
             \<and> assemble_document m s1 = (None, s2)
             \<and> enrich_document m s2 = (None, s3)
             \<and> determine_status m s3 = (Inl e, s4))"
  shows "fst (BasePipeline_execute m st0 d True) = Some e
     \<and> fst (BasePipeline_execute m st0 d False) = None
     \<and> status (conv_res (snd (BasePipeline_execute m st0 d False))) = FAILURE"
proof -
  let ?s = "\<lparr>in_doc = d, conv_res = ConversionResult_init st0, enrich_calls = []\<rparr>
              :: 'a state"
  from assms(2) have "\<exists>s'. execute_try m ?s = (Some e, s')"
    by (auto simp: execute_try_def)
  then obtain s' where "execute_try m ?s = (Some e, s')" ..
  with assms(1) show ?thesis by (simp add: BasePipeline_execute_def Let_def)
qed

lemma pages5: "[0 .. 4 :: int] = [0, 1, 2, 3, 4]"
  by (simp add: upto.simps)

lemma failing_build:
  "\<exists>s1. build_document (PaginatedPipeline default_perf (example_pipeline [] [failing_stage]))
       \<lparr>in_doc = example_document 5 pdf_document_backend,
        conv_res = ConversionResult_init PENDING, enrich_calls = []\<rparr>
     = (Some (StageFault ''stage failed''), s1)"
  by (simp add: PaginatedPipeline_def PaginatedPipeline_build_document_def
        isinstance_PdfDocumentBackend_def example_document_def pdf_document_backend_def
        create_pages_def ConversionResult_init_def pages5 build_try_def default_perf_def
        BatchConcurrencySettings_init_def chunkify_def chunks_step example_pipeline_def
        failing_stage_def new_Page_def)

theorem execute_fault_witness:
  "valid (example_document 5 pdf_document_backend)
   \<and> fst (BasePipeline_execute (PaginatedPipeline default_perf (example_pipeline [] [failing_stage]))
        PENDING (example_document 5 pdf_document_backend) True) = Some (StageFault ''stage failed'')
   \<and> fst (BasePipeline_execute (PaginatedPipeline default_perf (example_pipeline [] [failing_stage]))
        PENDING (example_document 5 pdf_document_backend) False) = None
   \<and> status (conv_res (snd (BasePipeline_execute
        (PaginatedPipeline default_perf (example_pipeline [] [failing_stage]))
        PENDING (example_document 5 pdf_document_backend) False))) = FAILURE"
proof -
  have v: "valid (example_document 5 pdf_document_backend)"
    by (simp add: example_document_def)
  from execute_fault [OF v disjI1, OF failing_build] v show ?thesis by simp
qed

section \<open>The status resolver\<close>
















section \<open>The page records\<close>











section \<open>The enrichment phase\<close>







end
